theory Spec2Isabelle
  imports Complex_Main
begin

section \<open>Common data: Python errors, the backend socket, decimal text\<close>

text \<open>
  The repository holds two dispatchers. \<^verbatim>\<open>load_balancer.py\<close> scans every server and
  keeps, per server, a job counter and a point in time at which the server is expected to
  be free. \<^verbatim>\<open>load_balancer_bar.py\<close> samples two servers and keeps, per server, the sum
  of the costs of the requests in flight.

  Exceptions are values of \<open>py_error\<close>; a method that can raise returns
  \<open>py_error + 'a\<close> with \<open>Inl\<close> for the exception. Nothing in either file catches an
  exception, so an \<open>Inl\<close> always travels to the top of the connection's thread.
\<close>

datatype py_error = IndexError | ValueError | AssertionError | AttributeError | SocketError

text \<open>
  One exchange on a server's socket: \<open>send\<close> raises, or \<open>recv\<close> raises (reset,
  timeout), or \<open>recv\<close> returns bytes, which are empty when the peer has closed.
  The backend is a function from the bytes sent to what happens.
\<close>

datatype net_result = SendFails | RecvFails | Reply string

type_synonym backend = "string \<Rightarrow> net_result"

text \<open>
  \<open>int(c)\<close> on a one-character string: the ten ASCII digits convert, every other
  character raises \<open>ValueError\<close>.
\<close>

definition is_digit :: "char \<Rightarrow> bool" where
  "is_digit c = (48 \<le> (of_char c :: nat) \<and> (of_char c :: nat) \<le> 57)"

definition py_int :: "char \<Rightarrow> py_error + int" where
  "py_int c = (if is_digit c then Inr (int (of_char c) - 48) else Inl ValueError)"

text \<open>\<open>str(n)\<close> of an integer, as \<open>'{}'.format(n)\<close> prints it.\<close>

definition digit_char :: "nat \<Rightarrow> char" where
  "digit_char d = char_of (48 + d)"

fun str_nat :: "nat \<Rightarrow> string" where
  "str_nat n = (if n < 10 then [digit_char n] else str_nat (n div 10) @ [digit_char (n mod 10)])"

declare str_nat.simps [simp del]

definition str_int :: "int \<Rightarrow> string" where
  "str_int i = (if i < 0 then CHR ''-'' # str_nat (nat (- i)) else str_nat (nat i))"

section \<open>load\_balancer.py\<close>

text \<open>
  \<open>time.time()\<close> returns a float; the model takes each reading as a parameter of type
  \<open>real\<close>, so sums and differences of times are exact. A job's cost is an integer.
\<close>

record Job =
  kind :: char
  cost :: int

record Server =
  queued_jobs :: int
  t_avail :: real
  server_kind :: char


definition get_tbusy :: "real \<Rightarrow> Server \<Rightarrow> real" where
  "get_tbusy now s = (if queued_jobs s = 0 then 0 else t_avail s - now)"

definition get_job_cost :: "Server \<Rightarrow> Job \<Rightarrow> int" where
  "get_job_cost s j =
     (if server_kind s = CHR ''V''
      then (if kind j = CHR ''V'' \<or> kind j = CHR ''P'' then cost j else cost j * 2)
      else (if kind j = CHR ''M'' then cost j
            else if kind j = CHR ''P'' then cost j * 2
            else cost j * 3))"

definition get_cost :: "real \<Rightarrow> Server \<Rightarrow> Job \<Rightarrow> real" where
  "get_cost now s j = get_tbusy now s + real_of_int (get_job_cost s j)"

text \<open>
  \<open>send_and_recv\<close> in three parts: the first locked region (\<open>reserve\<close>), the exchange
  on the socket with the assertion on the reply, the second locked region (\<open>release\<close>).
  An exception between the two regions leaves the method at once.
\<close>

definition reserve :: "real \<Rightarrow> real \<Rightarrow> Server \<Rightarrow> Server" where
  "reserve now c s =
     (let s1 = (if queued_jobs s = 0 then s\<lparr>t_avail := now\<rparr> else s);
          s2 = s1\<lparr>queued_jobs := queued_jobs s1 + 1\<rparr>
      in s2\<lparr>t_avail := t_avail s2 + c\<rparr>)"

definition release :: "real \<Rightarrow> Server \<Rightarrow> Server" where
  "release now s =
     (let s1 = s\<lparr>queued_jobs := queued_jobs s - 1\<rparr>
      in if queued_jobs s1 = 0 then s1\<lparr>t_avail := now\<rparr> else s1)"

definition send_and_recv ::
  "real \<Rightarrow> real \<Rightarrow> backend \<Rightarrow> Server \<Rightarrow> string \<Rightarrow> real \<Rightarrow> (py_error + string) \<times> Server" where
  "send_and_recv now1 now2 net s msg c =
     (let s1 = reserve now1 c s
      in case net msg of
           SendFails \<Rightarrow> (Inl SocketError, s1)
         | RecvFails \<Rightarrow> (Inl SocketError, s1)
         | Reply res \<Rightarrow>
             if res = [] then (Inl AssertionError, s1)
             else (Inr res, release now2 s1))"

text \<open>
  Line 109 of \<open>__send_to_servers\<close>: \<open>Job(chr(msg[0]), int(chr(msg[1])))\<close>. A
  message of fewer than two bytes raises \<open>IndexError\<close>, a second byte that is not a
  digit raises \<open>ValueError\<close>. The first byte is not examined: any character is taken
  as the job's kind.
\<close>

definition make_job :: "string \<Rightarrow> py_error + Job" where
  "make_job msg =
     (case msg of
        [] \<Rightarrow> Inl IndexError
      | [a] \<Rightarrow> Inl IndexError
      | a # b # _ \<Rightarrow>
          (case py_int b of
             Inl e \<Rightarrow> Inl e
           | Inr n \<Rightarrow> Inr \<lparr>kind = a, cost = n\<rparr>))"

text \<open>
  The loop of lines 112 to 116. The servers are visited in list order; \<open>clock i\<close> is
  what \<open>time.time()\<close> returns while server \<open>i\<close> is asked for its cost. The best
  server is kept as its position in the list.
\<close>

fun scan ::
  "(nat \<Rightarrow> real) \<Rightarrow> Job \<Rightarrow> Server list \<Rightarrow> nat \<Rightarrow> real \<times> nat option \<Rightarrow> real \<times> nat option" where
  "scan clock j [] i best = best"
| "scan clock j (s # rest) i (best_cost, best_server) =
     (let curr = get_cost (clock i) s j
      in if curr < best_cost then scan clock j rest (Suc i) (curr, Some i)
         else scan clock j rest (Suc i) (best_cost, best_server))"

text \<open>Lines 110 to 117: the sentinel, the loop and the assertion that follows it.\<close>

definition choose_server :: "(nat \<Rightarrow> real) \<Rightarrow> Job \<Rightarrow> Server list \<Rightarrow> py_error + (nat \<times> real)" where
  "choose_server clock j servers =
     (case scan clock j servers 0 (2 ^ 31, None) of
        (best_cost, None) \<Rightarrow> Inl AssertionError
      | (best_cost, Some i) \<Rightarrow> Inr (i, best_cost))"

text \<open>
  Line 119 formats \<open>msg.encode('ASCII')\<close> into the log line. \<open>msg\<close> is what
  \<open>recv\<close> returned, a \<open>bytes\<close> object, which has no \<open>encode\<close>: the expression raises
  \<open>AttributeError\<close> whatever the message is.
\<close>

definition log_request :: "string \<Rightarrow> py_error + unit" where
  "log_request msg = Inl AttributeError"

text \<open>
  Line 120: \<open>best_server.send_and_recv(msg, best_cost)\<close>. The cost handed over is the
  loop's \<open>best_cost\<close>, the value of \<open>get_cost\<close> for the chosen server.
\<close>

definition forward_best ::
  "real \<Rightarrow> real \<Rightarrow> (nat \<Rightarrow> backend) \<Rightarrow> Server list \<Rightarrow> string \<Rightarrow> nat \<times> real
    \<Rightarrow> (py_error + string) \<times> Server list" where
  "forward_best now1 now2 nets servers msg best =
     (case best of (i, best_cost) \<Rightarrow>
        (case send_and_recv now1 now2 (nets i) (servers ! i) msg best_cost of
           (res, s') \<Rightarrow> (res, servers[i := s'])))"

definition send_to_servers ::
  "(nat \<Rightarrow> real) \<Rightarrow> real \<Rightarrow> real \<Rightarrow> (nat \<Rightarrow> backend) \<Rightarrow> Server list \<Rightarrow> string
    \<Rightarrow> (py_error + string) \<times> Server list" where
  "send_to_servers clock now1 now2 nets servers msg =
     (case make_job msg of
        Inl e \<Rightarrow> (Inl e, servers)
      | Inr j \<Rightarrow>
          (case choose_server clock j servers of
             Inl e \<Rightarrow> (Inl e, servers)
           | Inr best \<Rightarrow>
               (case log_request msg of
                  Inl e \<Rightarrow> (Inl e, servers)
                | Inr _ \<Rightarrow> forward_best now1 now2 nets servers msg best)))"

text \<open>
  What one connection's thread leaves behind: the exception that ended it, if any, the
  bytes it sent to the client, the servers, and whether it closed the client's socket.
\<close>

record 'srv handled =
  raised :: "py_error option"
  sent_to_client :: "string option"
  servers_after :: "'srv list"
  conn_closed :: bool

text \<open>
  \<open>__run_client\<close>: \<open>recv(2)\<close> hands over at most the first two bytes the client
  sent. Sending to the client and closing its socket are taken to succeed.
\<close>

definition run_client ::
  "(nat \<Rightarrow> real) \<Rightarrow> real \<Rightarrow> real \<Rightarrow> (nat \<Rightarrow> backend) \<Rightarrow> Server list \<Rightarrow> string
    \<Rightarrow> Server handled" where
  "run_client clock now1 now2 nets servers payload =
     (let data = take 2 payload
      in if data = []
         then \<lparr>raised = Some AssertionError, sent_to_client = None,
               servers_after = servers, conn_closed = False\<rparr>
         else (case send_to_servers clock now1 now2 nets servers data of
                 (Inl e, servers') \<Rightarrow>
                   \<lparr>raised = Some e, sent_to_client = None,
                    servers_after = servers', conn_closed = False\<rparr>
               | (Inr res, servers') \<Rightarrow>
                   \<lparr>raised = None, sent_to_client = Some res,
                    servers_after = servers', conn_closed = True\<rparr>))"


text \<open>
  \<open>LoadBalancer.run\<close> accepts clients for ever and starts \<open>__run_client\<close> in a thread
  for each. A connection is what its thread meets: the clock readings of the scan, the
  times of the reserve and release steps, the behaviour of the servers' sockets and the
  bytes the client sent. \<open>run\<close> gives the servers once the threads of the first
  connections have ended; \<open>main_pool\<close> is \<open>main\<close> up to there.
\<close>

type_synonym connection = "(nat \<Rightarrow> real) \<times> real \<times> real \<times> (nat \<Rightarrow> backend) \<times> string"

fun run :: "connection list \<Rightarrow> Server list \<Rightarrow> Server list" where
  "run [] servers = servers"
| "run ((clock, now1, now2, nets, payload) # rest) servers =
     run rest (servers_after (run_client clock now1 now2 nets servers payload))"


section \<open>load\_balancer\_bar.py\<close>

text \<open>
  A request type reaches \<open>server_cost\<close> and \<open>request\<close> as a Python value. The
  methods compare it with the strings \<open>'V'\<close>, \<open>'P'\<close>, \<open>'M'\<close>; the handler passes
  \<open>request[0]\<close>, an element of the \<open>bytes\<close> that \<open>recv\<close> returned, which is an
  integer. An integer equals no string.
\<close>

datatype py_val = PyInt int | PyStr string

text \<open>\<open>'{}'.format(v)\<close>.\<close>

definition py_format :: "py_val \<Rightarrow> string" where
  "py_format v = (case v of PyInt n \<Rightarrow> str_int n | PyStr t \<Rightarrow> t)"

record bar_server =
  server_type :: char
  current_cost :: int

definition bar_server_init :: "char \<Rightarrow> py_error + bar_server" where
  "bar_server_init t =
     (if t \<notin> set [CHR ''V'', CHR ''M''] then Inl ValueError
      else Inr \<lparr>server_type = t, current_cost = 0\<rparr>)"

definition type_cost :: "char \<Rightarrow> py_val \<Rightarrow> int" where
  "type_cost st rt =
     (if st = CHR ''V''
      then (if rt \<in> set [PyStr ''V'', PyStr ''P''] then 1 else 2)
      else (if rt = PyStr ''M'' then 1
            else if rt = PyStr ''P'' then 2
            else 3))"

definition server_cost :: "bar_server \<Rightarrow> py_val \<Rightarrow> int \<Rightarrow> bool \<Rightarrow> py_error + int" where
  "server_cost s request_type request_length total_flag =
     (if request_type \<notin> set [PyStr ''V'', PyStr ''P'', PyStr ''M''] then Inl ValueError
      else if total_flag
           then Inr (current_cost s + type_cost (server_type s) request_type * request_length)
           else Inr (type_cost (server_type s) request_type * request_length))"

text \<open>
  What \<open>request\<close> writes to the server's socket:
  \<open>'{}{}'.format(request_type, request_length)\<close>, encoded.
\<close>

definition wire :: "py_val \<Rightarrow> int \<Rightarrow> string" where
  "wire request_type request_length = py_format request_type @ str_int request_length"

text \<open>
  Lines 161 and 164 of \<open>request\<close>: the cost is added before the exchange and the same
  local value is subtracted after it.
\<close>

definition bar_reserve :: "int \<Rightarrow> bar_server \<Rightarrow> bar_server" where
  "bar_reserve request_cost s = s\<lparr>current_cost := current_cost s + request_cost\<rparr>"

definition bar_release :: "int \<Rightarrow> bar_server \<Rightarrow> bar_server" where
  "bar_release request_cost s = s\<lparr>current_cost := current_cost s - request_cost\<rparr>"

definition request ::
  "backend \<Rightarrow> bar_server \<Rightarrow> py_val \<Rightarrow> int \<Rightarrow> (py_error + string) \<times> bar_server" where
  "request net s request_type request_length =
     (case server_cost s request_type request_length False of
        Inl e \<Rightarrow> (Inl e, s)
      | Inr request_cost \<Rightarrow>
          (let s1 = bar_reserve request_cost s
           in case net (wire request_type request_length) of
                SendFails \<Rightarrow> (Inl SocketError, s1)
              | RecvFails \<Rightarrow> (Inl SocketError, s1)
              | Reply response \<Rightarrow> (Inr response, bar_release request_cost s1)))"

text \<open>
  \<open>random.sample(range(0, n), 2)\<close>, a library call: two positions drawn without
  replacement. \<open>r1\<close> and \<open>r2\<close> are the random numbers of the two draws; the first
  picks among all \<open>n\<close> positions, the second among the \<open>n - 1\<close> that are left. A
  population of fewer than two raises \<open>ValueError\<close>.
\<close>

definition sample2 :: "nat \<Rightarrow> nat \<Rightarrow> nat \<Rightarrow> py_error + (nat \<times> nat)" where
  "sample2 n r1 r2 =
     (if n < 2 then Inl ValueError
      else (let population = [0..<n];
                k1 = r1 mod n;
                left = take k1 population @ drop (Suc k1) population;
                k2 = r2 mod (n - 1)
            in Inr (population ! k1, left ! k2)))"

definition get_server ::
  "bar_server list \<Rightarrow> nat \<Rightarrow> nat \<Rightarrow> py_val \<Rightarrow> int \<Rightarrow> py_error + nat" where
  "get_server servers r1 r2 request_type request_length =
     (case sample2 (length servers) r1 r2 of
        Inl e \<Rightarrow> Inl e
      | Inr (i1, i2) \<Rightarrow>
          (case server_cost (servers ! i1) request_type request_length True of
             Inl e \<Rightarrow> Inl e
           | Inr c1 \<Rightarrow>
               (case server_cost (servers ! i2) request_type request_length True of
                  Inl e \<Rightarrow> Inl e
                | Inr c2 \<Rightarrow> if c1 < c2 then Inr i1 else Inr i2)))"

text \<open>
  Line 66 of \<open>__handle_request\<close>:
  \<open>request_type, request_length = request[0], int(request[1])\<close>. The request is
  the \<open>bytes\<close> that \<open>recv\<close> returned: \<open>request[0]\<close> and \<open>request[1]\<close> are the
  integer values of its first two bytes, and \<open>int\<close> of an integer is that integer. A
  request of fewer than two bytes raises \<open>IndexError\<close>.
\<close>

definition decode_request :: "string \<Rightarrow> py_error + (py_val \<times> int)" where
  "decode_request req =
     (case req of
        [] \<Rightarrow> Inl IndexError
      | [a] \<Rightarrow> Inl IndexError
      | a # b # _ \<Rightarrow> Inr (PyInt (int (of_char a)), int (of_char b)))"

text \<open>
  \<open>__handle_request\<close>. The test \<open>request is None\<close> is kept as written, with the
  received request an optional byte string; \<open>recv\<close> itself returns bytes, empty when
  the client has closed, never \<open>None\<close>. Sending to the client and closing its socket
  are taken to succeed.
\<close>

definition handle_request ::
  "bar_server list \<Rightarrow> nat \<Rightarrow> nat \<Rightarrow> (nat \<Rightarrow> backend) \<Rightarrow> string option \<Rightarrow> bar_server handled" where
  "handle_request servers r1 r2 nets received =
     (case received of
        None \<Rightarrow>
          \<lparr>raised = None, sent_to_client = None, servers_after = servers, conn_closed = True\<rparr>
      | Some req \<Rightarrow>
          (case decode_request req of
             Inl e \<Rightarrow>
               \<lparr>raised = Some e, sent_to_client = None,
                servers_after = servers, conn_closed = False\<rparr>
           | Inr (request_type, request_length) \<Rightarrow>
               (case get_server servers r1 r2 request_type request_length of
                  Inl e \<Rightarrow>
                    \<lparr>raised = Some e, sent_to_client = None,
                     servers_after = servers, conn_closed = False\<rparr>
                | Inr i \<Rightarrow>
                    (case request (nets i) (servers ! i) request_type request_length of
                       (Inl e, s') \<Rightarrow>
                         \<lparr>raised = Some e, sent_to_client = None,
                          servers_after = servers[i := s'], conn_closed = False\<rparr>
                     | (Inr response, s') \<Rightarrow>
                         \<lparr>raised = None, sent_to_client = Some response,
                          servers_after = servers[i := s'], conn_closed = True\<rparr>))))"

section \<open>Runs of reservations and releases on one server\<close>

text \<open>
  Many threads call \<open>send_and_recv\<close> or \<open>request\<close> on the same server. A run is
  the sequence in which their reserve and release steps reach the server, each step taken
  whole. Beside the server the run keeps what the threads between the two steps hold: in
  \<^verbatim>\<open>load_balancer_bar.py\<close> the local \<open>request_cost\<close> of each, in
  \<^verbatim>\<open>load_balancer.py\<close> only how many there are. A thread releases only after it has
  reserved, so a release with nothing held is not a run of the program (\<open>None\<close>). A
  thread whose exchange fails never releases: what it holds stays held.
\<close>

datatype bar_event = Enter py_val int | Leave int

fun bar_step :: "bar_event \<Rightarrow> bar_server \<times> int list \<Rightarrow> (bar_server \<times> int list) option" where
  "bar_step (Enter request_type request_length) (s, held) =
     (case server_cost s request_type request_length False of
        Inl e \<Rightarrow> Some (s, held)
      | Inr request_cost \<Rightarrow> Some (bar_reserve request_cost s, request_cost # held))"
| "bar_step (Leave request_cost) (s, held) =
     (if request_cost \<in> set held
      then Some (bar_release request_cost s, remove1 request_cost held)
      else None)"

fun bar_run :: "bar_event list \<Rightarrow> bar_server \<times> int list \<Rightarrow> (bar_server \<times> int list) option" where
  "bar_run [] st = Some st"
| "bar_run (e # es) st = (case bar_step e st of None \<Rightarrow> None | Some st' \<Rightarrow> bar_run es st')"

text \<open>The sizes a request can carry are not negative: \<open>int\<close> of one digit.\<close>

fun size_ok :: "bar_event \<Rightarrow> bool" where
  "size_ok (Enter request_type request_length) = (0 \<le> request_length)"
| "size_ok (Leave request_cost) = True"

datatype lb_event = Reserve real real | Release real

fun lb_step :: "lb_event \<Rightarrow> Server \<times> nat \<Rightarrow> (Server \<times> nat) option" where
  "lb_step (Reserve now c) (s, n) = Some (reserve now c s, Suc n)"
| "lb_step (Release now) (s, n) = (if n = 0 then None else Some (release now s, n - 1))"

fun lb_run :: "lb_event list \<Rightarrow> Server \<times> nat \<Rightarrow> (Server \<times> nat) option" where
  "lb_run [] st = Some st"
| "lb_run (e # es) st = (case lb_step e st of None \<Rightarrow> None | Some st' \<Rightarrow> lb_run es st')"

text \<open>
  What a run keeps true of the server of \<^verbatim>\<open>load_balancer_bar.py\<close>: its
  \<open>current_cost\<close> is the sum of the costs held, none of them negative.
\<close>

definition bar_inv :: "bar_server \<times> int list \<Rightarrow> bool" where
  "bar_inv st = (current_cost (fst st) = sum_list (snd st) \<and> list_all (\<lambda>c. 0 \<le> c) (snd st))"

section \<open>The request format and the load as the specification words them\<close>





section \<open>Facts about the scan\<close>

text \<open>
  The loop's invariant, for any starting position and any best cost so far: either no
  server is strictly below the best so far and the pair is returned as it was, or the
  result is the first server that attains the least cost.
\<close>

lemma scan_spec:
  "scan clock j servers i0 (bc, bs) = (c, r) \<Longrightarrow>
   (if \<forall>k<length servers. bc \<le> get_cost (clock (i0 + k)) (servers ! k) j
    then c = bc \<and> r = bs
    else \<exists>m<length servers. r = Some (i0 + m)
           \<and> c = get_cost (clock (i0 + m)) (servers ! m) j \<and> c < bc
           \<and> (\<forall>k<length servers. c \<le> get_cost (clock (i0 + k)) (servers ! k) j)
           \<and> (\<forall>k<m. c < get_cost (clock (i0 + k)) (servers ! k) j))"
proof (induction servers arbitrary: i0 bc bs)
  case Nil
  then show ?case by simp
next
  case (Cons s rest)
  let ?curr = "get_cost (clock i0) s j"
  show ?case
  proof (cases "?curr < bc")
    case True
    with Cons.prems have run: "scan clock j rest (Suc i0) (?curr, Some i0) = (c, r)"
      by simp
    note ih = Cons.IH [OF run]
    show ?thesis
    proof (cases "\<forall>k<length rest. ?curr \<le> get_cost (clock (Suc i0 + k)) (rest ! k) j")
      case all: True
      from ih [unfolded if_P [OF all]] have cr: "c = ?curr" "r = Some i0" by simp_all
      have "\<not> (\<forall>k<length (s # rest). bc \<le> get_cost (clock (i0 + k)) ((s # rest) ! k) j)"
        using True by (auto intro: exI [of _ 0])
      moreover have "\<forall>k<length (s # rest). c \<le> get_cost (clock (i0 + k)) ((s # rest) ! k) j"
        using all cr by (auto simp: less_Suc_eq_0_disj)
      ultimately show ?thesis
        using cr True by (auto intro!: exI [of _ 0])
    next
      case False
      from ih [unfolded if_not_P [OF False]] obtain m where m: "m < length rest" "r = Some (Suc i0 + m)"
        "c = get_cost (clock (Suc i0 + m)) (rest ! m) j" "c < ?curr"
        "\<forall>k<length rest. c \<le> get_cost (clock (Suc i0 + k)) (rest ! k) j"
        "\<forall>k<m. c < get_cost (clock (Suc i0 + k)) (rest ! k) j"
        by blast
      have "\<not> (\<forall>k<length (s # rest). bc \<le> get_cost (clock (i0 + k)) ((s # rest) ! k) j)"
        using True by (auto intro: exI [of _ 0])
      moreover have "\<forall>k<length (s # rest). c \<le> get_cost (clock (i0 + k)) ((s # rest) ! k) j"
        using m by (auto simp: less_Suc_eq_0_disj)
      moreover have "\<forall>k<Suc m. c < get_cost (clock (i0 + k)) ((s # rest) ! k) j"
        using m by (auto simp: less_Suc_eq_0_disj)
      ultimately show ?thesis
        using m True by (auto intro!: exI [of _ "Suc m"])
    qed
  next
    case notless: False
    with Cons.prems have run: "scan clock j rest (Suc i0) (bc, bs) = (c, r)"
      by simp
    note ih = Cons.IH [OF run]
    show ?thesis
    proof (cases "\<forall>k<length rest. bc \<le> get_cost (clock (Suc i0 + k)) (rest ! k) j")
      case all: True
      from ih [unfolded if_P [OF all]] have cr: "c = bc" "r = bs" by simp_all
      have "\<forall>k<length (s # rest). bc \<le> get_cost (clock (i0 + k)) ((s # rest) ! k) j"
        using all notless by (auto simp: less_Suc_eq_0_disj)
      then show ?thesis using cr by simp
    next
      case False
      from ih [unfolded if_not_P [OF False]] obtain m where m: "m < length rest" "r = Some (Suc i0 + m)"
        "c = get_cost (clock (Suc i0 + m)) (rest ! m) j" "c < bc"
        "\<forall>k<length rest. c \<le> get_cost (clock (Suc i0 + k)) (rest ! k) j"
        "\<forall>k<m. c < get_cost (clock (Suc i0 + k)) (rest ! k) j"
        by blast
      have "\<not> (\<forall>k<length (s # rest). bc \<le> get_cost (clock (i0 + k)) ((s # rest) ! k) j)"
        using False by (auto simp: less_Suc_eq_0_disj)
      moreover have "\<forall>k<length (s # rest). c \<le> get_cost (clock (i0 + k)) ((s # rest) ! k) j"
        using m notless by (auto simp: less_Suc_eq_0_disj)
      moreover have "\<forall>k<Suc m. c < get_cost (clock (i0 + k)) ((s # rest) ! k) j"
        using m notless by (auto simp: less_Suc_eq_0_disj)
      ultimately show ?thesis
        using m by (auto intro!: exI [of _ "Suc m"])
    qed
  qed
qed

lemma scan_none:
  "scan clock j servers 0 (b, None) = (c, r) \<Longrightarrow>
   (r = None) = (\<forall>k<length servers. b \<le> get_cost (clock k) (servers ! k) j)"
  using scan_spec [of clock j servers 0 b None c r] by (auto split: if_splits)

section \<open>Facts about the sample\<close>

text \<open>
  The second draw indexes the list with the first position taken out: below the first
  position it returns its own index, from there on the next one.
\<close>

lemma nth_without:
  assumes "k1 < n" "k2 < n - 1"
  shows "(take k1 [0..<n] @ drop (Suc k1) [0..<n]) ! k2 = (if k2 < k1 then k2 else Suc k2)"
proof (cases "k2 < k1")
  case True
  with assms show ?thesis by (simp add: nth_append)
next
  case False
  with assms have "Suc k1 + (k2 - k1) < n" by linarith
  then have "[Suc k1..<n] ! (k2 - k1) = Suc k1 + (k2 - k1)" by (rule nth_upt)
  with False assms show ?thesis by (simp add: nth_append)
qed

lemma sample2_eq:
  "sample2 n r1 r2 =
     (if n < 2 then Inl ValueError
      else Inr (r1 mod n,
                if r2 mod (n - 1) < r1 mod n then r2 mod (n - 1) else Suc (r2 mod (n - 1))))"
proof (cases "n < 2")
  case True
  then show ?thesis by (simp add: sample2_def)
next
  case False
  then have "r1 mod n < n" "r2 mod (n - 1) < n - 1" by simp_all
  from nth_without [OF this] False show ?thesis
    by (simp add: sample2_def Let_def)
qed

lemma sample2_distinct:
  assumes "sample2 n r1 r2 = Inr (i1, i2)"
  shows "i1 < n \<and> i2 < n \<and> i1 \<noteq> i2"
proof -
  from assms have n: "\<not> n < 2" by (auto simp: sample2_def split: if_splits)
  define k1 where "k1 = r1 mod n"
  define k2 where "k2 = r2 mod (n - 1)"
  have bounds: "k1 < n" "k2 < n - 1" using n by (simp_all add: k1_def k2_def)
  from assms n have "i1 = k1" "i2 = (if k2 < k1 then k2 else Suc k2)"
    by (auto simp: sample2_eq k1_def k2_def split: if_splits)
  with bounds show ?thesis by auto
qed

section \<open>Facts about costs and runs\<close>

lemma type_cost_pos: "0 < type_cost st rt"
  by (simp add: type_cost_def)

lemma server_cost_nonneg:
  assumes "server_cost s request_type request_length False = Inr c" "0 \<le> request_length"
  shows "0 \<le> c"
proof -
  from assms(1) have "c = type_cost (server_type s) request_type * request_length"
    by (simp add: server_cost_def split: if_splits)
  with assms(2) type_cost_pos [of "server_type s" request_type] show ?thesis
    by simp
qed

lemma sum_list_remove1_int:
  fixes c :: int
  shows "c \<in> set held \<Longrightarrow> sum_list (remove1 c held) = sum_list held - c"
  by (induction held) auto

lemma bar_step_inv:
  assumes "bar_step e st = Some st'" "size_ok e" "bar_inv st"
  shows "bar_inv st'"
proof (cases st)
  case (Pair s held)
  show ?thesis
  proof (cases e)
    case (Enter request_type request_length)
    show ?thesis
    proof (cases "server_cost s request_type request_length False")
      case (Inl err)
      with assms Pair Enter show ?thesis by simp
    next
      case (Inr c)
      from assms(2) Enter have "0 \<le> request_length" by simp
      from server_cost_nonneg [OF Inr this] have "0 \<le> c" .
      with assms Pair Enter Inr show ?thesis
        by (auto simp: bar_inv_def bar_reserve_def)
    qed
  next
    case (Leave c)
    with assms(1) Pair have mem: "c \<in> set held"
      and st': "st' = (bar_release c s, remove1 c held)"
      by (auto split: if_splits)
    have "list_all (\<lambda>c. 0 \<le> c) (remove1 c held)"
      using assms(3) Pair by (auto simp: bar_inv_def list_all_iff dest: notin_set_remove1)
    with assms(3) Pair mem st' show ?thesis
      by (simp add: bar_inv_def bar_release_def sum_list_remove1_int)
  qed
qed

lemma bar_run_inv:
  "bar_run evs st = Some st' \<Longrightarrow> list_all size_ok evs \<Longrightarrow> bar_inv st \<Longrightarrow> bar_inv st'"
proof (induction evs arbitrary: st)
  case Nil
  then show ?case by simp
next
  case (Cons e es)
  then obtain st1 where step: "bar_step e st = Some st1" and rest: "bar_run es st1 = Some st'"
    by (auto split: option.splits)
  from bar_step_inv [OF step] Cons.prems have "bar_inv st1" by simp
  with Cons.IH [OF rest] Cons.prems show ?case by simp
qed

lemma sum_list_nonneg_all: "list_all (\<lambda>c. (0::int) \<le> c) held \<Longrightarrow> 0 \<le> sum_list held"
  by (induction held) auto

lemma lb_step_count:
  "lb_step e (sv, n) = Some (sv', n') \<Longrightarrow> queued_jobs sv = int n \<Longrightarrow> queued_jobs sv' = int n'"
  by (cases e) (auto simp: reserve_def release_def Let_def split: if_splits)

lemma lb_run_count:
  "lb_run evs (sv, n) = Some (sv', n') \<Longrightarrow> queued_jobs sv = int n \<Longrightarrow> queued_jobs sv' = int n'"
proof (induction evs arbitrary: sv n)
  case Nil
  then show ?case by simp
next
  case (Cons e es)
  then obtain sv1 n1 where step: "lb_step e (sv, n) = Some (sv1, n1)"
    and rest: "lb_run es (sv1, n1) = Some (sv', n')"
    by (auto split: option.splits)
  from lb_step_count [OF step Cons.prems(2)] Cons.IH [OF rest] show ?case by simp
qed










section \<open>Facts about the sampled pair and the decimal text\<close>

text \<open>
  Called with one of the strings V, P, M, \<open>__get_server\<close> returns the drawn server
  whose current cost plus the request's cost is lower, the second drawn on a tie. Called
  with an integer it raises, and so does the handler on every request it receives.
\<close>

lemma get_server_of_str:
  assumes "2 \<le> length servers"
    and "request_type \<in> set [PyStr ''V'', PyStr ''P'', PyStr ''M'']"
  shows "\<exists>i1 i2.
           sample2 (length servers) r1 r2 = Inr (i1, i2)
           \<and> i1 < length servers \<and> i2 < length servers \<and> i1 \<noteq> i2
           \<and> get_server servers r1 r2 request_type request_length
               = Inr (if current_cost (servers ! i1)
                          + type_cost (server_type (servers ! i1)) request_type * request_length
                        < current_cost (servers ! i2)
                          + type_cost (server_type (servers ! i2)) request_type * request_length
                      then i1 else i2)"
proof -
  from assms(1) obtain i1 i2 where draw: "sample2 (length servers) r1 r2 = Inr (i1, i2)"
    by (auto simp: sample2_eq)
  note sample2_distinct [OF draw]
  moreover from assms(2) have "server_cost s request_type request_length True
      = Inr (current_cost s + type_cost (server_type s) request_type * request_length)" for s
    by (auto simp: server_cost_def)
  ultimately show ?thesis using draw
    by (auto simp: get_server_def)
qed

lemma get_server_of_int:
  "get_server servers r1 r2 (PyInt n) request_length = Inl ValueError"
  by (auto simp: get_server_def sample2_eq server_cost_def split: sum.splits)

lemma handle_request_raises:
  "\<exists>e. handle_request servers r1 r2 nets (Some req)
         = \<lparr>raised = Some e, sent_to_client = None, servers_after = servers, conn_closed = False\<rparr>"
proof (cases "decode_request req")
  case (Inl e)
  then show ?thesis by (simp add: handle_request_def)
next
  case (Inr tl)
  then obtain n l where "decode_request req = Inr (PyInt n, l)"
    by (auto simp: decode_request_def split: list.splits)
  then show ?thesis
    by (simp add: handle_request_def get_server_of_int)
qed



section \<open>The cost table\<close>

text \<open>
  C2. The cost of a job of size \<open>S\<close> is the table's multiplier times \<open>S\<close>, in both
  files: on a video server 1 for a video or priority job and 2 for a music job; on a music
  server 1 for a music job, 2 for a priority job and 3 for a video job. A video job of
  size 10 costs 10 on an idle video server and 30 on an idle music server.
\<close>

theorem cost_table:
  "get_job_cost (s\<lparr>server_kind := CHR ''V''\<rparr>) \<lparr>kind = CHR ''V'', cost = S\<rparr> = 1 * S
   \<and> get_job_cost (s\<lparr>server_kind := CHR ''V''\<rparr>) \<lparr>kind = CHR ''P'', cost = S\<rparr> = 1 * S
   \<and> get_job_cost (s\<lparr>server_kind := CHR ''V''\<rparr>) \<lparr>kind = CHR ''M'', cost = S\<rparr> = 2 * S
   \<and> get_job_cost (s\<lparr>server_kind := CHR ''M''\<rparr>) \<lparr>kind = CHR ''M'', cost = S\<rparr> = 1 * S
   \<and> get_job_cost (s\<lparr>server_kind := CHR ''M''\<rparr>) \<lparr>kind = CHR ''P'', cost = S\<rparr> = 2 * S
   \<and> get_job_cost (s\<lparr>server_kind := CHR ''M''\<rparr>) \<lparr>kind = CHR ''V'', cost = S\<rparr> = 3 * S
   \<and> server_cost (b\<lparr>server_type := CHR ''V''\<rparr>) (PyStr ''V'') S False = Inr (1 * S)
   \<and> server_cost (b\<lparr>server_type := CHR ''V''\<rparr>) (PyStr ''P'') S False = Inr (1 * S)
   \<and> server_cost (b\<lparr>server_type := CHR ''V''\<rparr>) (PyStr ''M'') S False = Inr (2 * S)
   \<and> server_cost (b\<lparr>server_type := CHR ''M''\<rparr>) (PyStr ''M'') S False = Inr (1 * S)
   \<and> server_cost (b\<lparr>server_type := CHR ''M''\<rparr>) (PyStr ''P'') S False = Inr (2 * S)
   \<and> server_cost (b\<lparr>server_type := CHR ''M''\<rparr>) (PyStr ''V'') S False = Inr (3 * S)
   \<and> get_cost now \<lparr>queued_jobs = 0, t_avail = t, server_kind = CHR ''V''\<rparr>
        \<lparr>kind = CHR ''V'', cost = 10\<rparr> = 10
   \<and> get_cost now \<lparr>queued_jobs = 0, t_avail = t, server_kind = CHR ''M''\<rparr>
        \<lparr>kind = CHR ''V'', cost = 10\<rparr> = 30
   \<and> server_cost \<lparr>server_type = CHR ''V'', current_cost = 0\<rparr> (PyStr ''V'') 10 True = Inr 10
   \<and> server_cost \<lparr>server_type = CHR ''M'', current_cost = 0\<rparr> (PyStr ''V'') 10 True = Inr 30"
  by (simp add: get_job_cost_def get_cost_def get_tbusy_def server_cost_def type_cost_def)

section \<open>Full-scan selection\<close>



section \<open>The sentinel of the full scan\<close>

text \<open>
  C10. The best cost starts at \<open>2 ^ 31\<close> and only a strictly smaller cost replaces
  it: the scan returns a server exactly when some server's total cost is below
  \<open>2 ^ 31\<close>, and when every total cost is at least \<open>2 ^ 31\<close> the assertion after
  the loop fails, non-empty list or not.
\<close>

theorem choose_server_sentinel:
  "((\<exists>i c. choose_server clock j servers = Inr (i, c))
      = (\<exists>k<length servers. get_cost (clock k) (servers ! k) j < 2 ^ 31))
   \<and> ((\<forall>k<length servers. 2 ^ 31 \<le> get_cost (clock k) (servers ! k) j)
        \<longrightarrow> choose_server clock j servers = Inl AssertionError)"
proof -
  obtain c r where run: "scan clock j servers 0 (2 ^ 31, None) = (c, r)"
    by (cases "scan clock j servers 0 (2 ^ 31, None)")
  from scan_none [OF run]
  have none: "(r = None) = (\<forall>k<length servers. 2 ^ 31 \<le> get_cost (clock k) (servers ! k) j)" .
  show ?thesis
  proof (cases r)
    case None
    with run none show ?thesis
      by (auto simp: choose_server_def not_less)
  next
    case (Some i)
    with run none show ?thesis
      by (auto simp: choose_server_def not_le)
  qed
qed

text \<open>
  One busy server whose residual time is \<open>2 ^ 31\<close>: the assertion fails. The same
  server six seconds less busy, with a job of cost 5: it is returned.
\<close>

theorem choose_server_sentinel_witness:
  "choose_server (\<lambda>_. 0) \<lparr>kind = CHR ''V'', cost = 5\<rparr>
     [\<lparr>queued_jobs = 1, t_avail = 2 ^ 31, server_kind = CHR ''V''\<rparr>] = Inl AssertionError
   \<and> (\<exists>i c. choose_server (\<lambda>_. 0) \<lparr>kind = CHR ''V'', cost = 5\<rparr>
     [\<lparr>queued_jobs = 1, t_avail = 2 ^ 31 - 6, server_kind = CHR ''V''\<rparr>] = Inr (i, c))"
  using choose_server_sentinel [of "\<lambda>_. 0" "\<lparr>kind = CHR ''V'', cost = 5\<rparr>"
      "[\<lparr>queued_jobs = 1, t_avail = 2 ^ 31, server_kind = CHR ''V''\<rparr>]"]
    choose_server_sentinel [of "\<lambda>_. 0" "\<lparr>kind = CHR ''V'', cost = 5\<rparr>"
      "[\<lparr>queued_jobs = 1, t_avail = 2 ^ 31 - 6, server_kind = CHR ''V''\<rparr>]"]
  by (simp add: get_cost_def get_tbusy_def get_job_cost_def)

section \<open>The reservation around a forwarded request\<close>

text \<open>
  C1, as amended. A forward that fails after the reserve step leaves the reservation in
  place. In \<^verbatim>\<open>load_balancer_bar.py\<close> an exception of \<open>send\<close> or \<open>recv\<close> leaves
  \<open>request\<close> with \<open>current_cost\<close> at its value before the request plus the
  request's cost; an empty reply is no failure there, it is released and returned. In
  \<^verbatim>\<open>load_balancer.py\<close> an exception of \<open>send\<close> or \<open>recv\<close>, or an empty reply
  (the assertion), leaves \<open>send_and_recv\<close> with \<open>queued_jobs\<close> one above its value
  before the request and \<open>t_avail\<close> advanced by the cost. The error is the socket's or
  the assertion's own.
\<close>

theorem failed_forward_keeps_reservation:
  "(server_cost s request_type request_length False = Inr request_cost
      \<and> (net (wire request_type request_length) = SendFails
           \<or> net (wire request_type request_length) = RecvFails)
     \<longrightarrow> request net s request_type request_length
           = (Inl SocketError, s\<lparr>current_cost := current_cost s + request_cost\<rparr>))
   \<and> (server_cost s request_type request_length False = Inr request_cost
      \<and> net (wire request_type request_length) = Reply []
     \<longrightarrow> request net s request_type request_length = (Inr [], s))
   \<and> (nt msg = SendFails \<or> nt msg = RecvFails \<or> nt msg = Reply []
     \<longrightarrow> fst (send_and_recv now1 now2 nt sv msg c)
            = Inl (if nt msg = Reply [] then AssertionError else SocketError)
         \<and> snd (send_and_recv now1 now2 nt sv msg c) = reserve now1 c sv
         \<and> queued_jobs (snd (send_and_recv now1 now2 nt sv msg c)) = queued_jobs sv + 1
         \<and> t_avail (snd (send_and_recv now1 now2 nt sv msg c))
            = (if queued_jobs sv = 0 then now1 else t_avail sv) + c)"
  by (auto simp: request_def send_and_recv_def reserve_def bar_reserve_def bar_release_def Let_def)

text \<open>
  A priority job of size 3 on a music server with 4 outstanding: 10 after a failed send,
  4 after an empty reply. A failed receive on a server with two queued jobs: three.
\<close>

theorem failed_forward_keeps_reservation_witness:
  "request (\<lambda>_. SendFails) \<lparr>server_type = CHR ''M'', current_cost = 4\<rparr> (PyStr ''P'') 3
     = (Inl SocketError, \<lparr>server_type = CHR ''M'', current_cost = 10\<rparr>)
   \<and> request (\<lambda>_. Reply []) \<lparr>server_type = CHR ''M'', current_cost = 4\<rparr> (PyStr ''P'') 3
     = (Inr [], \<lparr>server_type = CHR ''M'', current_cost = 4\<rparr>)
   \<and> queued_jobs (snd (send_and_recv 20 21 (\<lambda>_. RecvFails)
        \<lparr>queued_jobs = 2, t_avail = 30, server_kind = CHR ''V''\<rparr> ''M4'' 18)) = 3"
  using failed_forward_keeps_reservation [of "\<lparr>server_type = CHR ''M'', current_cost = 4\<rparr>"
      "PyStr ''P''" 3 6 "\<lambda>_. SendFails" "\<lambda>_. RecvFails" "''M4''" 20 21
      "\<lparr>queued_jobs = 2, t_avail = 30, server_kind = CHR ''V''\<rparr>" 18]
    failed_forward_keeps_reservation [of "\<lparr>server_type = CHR ''M'', current_cost = 4\<rparr>"
      "PyStr ''P''" 3 6 "\<lambda>_. Reply []" "\<lambda>_. RecvFails" "''M4''" 20 21
      "\<lparr>queued_jobs = 2, t_avail = 30, server_kind = CHR ''V''\<rparr>" 18]
  by (simp add: server_cost_def type_cost_def)

text \<open>
  C1 as stated asks for the value before the request after a failed forward. A video
  server with 7 outstanding and a video job of size 5 whose receive fails: 12 afterwards.
  An idle server of \<^verbatim>\<open>load_balancer.py\<close> whose reply is empty: one queued job
  afterwards.
\<close>

theorem failed_forward_counterexample:
  "request (\<lambda>_. RecvFails) \<lparr>server_type = CHR ''V'', current_cost = 7\<rparr> (PyStr ''V'') 5
     = (Inl SocketError, \<lparr>server_type = CHR ''V'', current_cost = 12\<rparr>)
   \<and> send_and_recv 0 1 (\<lambda>_. Reply []) \<lparr>queued_jobs = 0, t_avail = 0, server_kind = CHR ''V''\<rparr>
        ''V5'' 5
     = (Inl AssertionError, \<lparr>queued_jobs = 1, t_avail = 5, server_kind = CHR ''V''\<rparr>)"
  by (simp add: request_def server_cost_def type_cost_def bar_reserve_def
      send_and_recv_def reserve_def Let_def)



text \<open>
  C5. A reserve followed by its release gives back what was there: in
  \<^verbatim>\<open>load_balancer_bar.py\<close> the whole server, so its \<open>current_cost\<close>, for the two
  steps alone and for a \<open>request\<close> that gets a reply; in \<^verbatim>\<open>load_balancer.py\<close>
  the counter \<open>queued_jobs\<close>, for the two steps alone and for a \<open>send_and_recv\<close>
  that gets a non-empty reply.
\<close>

theorem reserve_release_round_trip:
  "bar_release request_cost (bar_reserve request_cost s) = s
   \<and> (request_type \<in> set [PyStr ''V'', PyStr ''P'', PyStr ''M'']
        \<and> net (wire request_type request_length) = Reply response
      \<longrightarrow> request net s request_type request_length = (Inr response, s))
   \<and> queued_jobs (release now2 (reserve now1 c sv)) = queued_jobs sv
   \<and> (nt msg = Reply res \<and> res \<noteq> []
      \<longrightarrow> fst (send_and_recv now1 now2 nt sv msg c) = Inr res
          \<and> queued_jobs (snd (send_and_recv now1 now2 nt sv msg c)) = queued_jobs sv)"
  by (auto simp: request_def send_and_recv_def reserve_def release_def bar_reserve_def
      bar_release_def server_cost_def Let_def)

text \<open>
  A video job of size 2 on a music server with 9 outstanding, answered: 9 afterwards. An
  answered exchange on a server with one queued job: one afterwards.
\<close>

theorem reserve_release_round_trip_witness:
  "request (\<lambda>_. Reply ''done'') \<lparr>server_type = CHR ''M'', current_cost = 9\<rparr> (PyStr ''V'') 2
     = (Inr ''done'', \<lparr>server_type = CHR ''M'', current_cost = 9\<rparr>)
   \<and> queued_jobs (snd (send_and_recv 3 4 (\<lambda>_. Reply ''done'')
        \<lparr>queued_jobs = 1, t_avail = 8, server_kind = CHR ''M''\<rparr> ''V2'' 11)) = 1"
  using reserve_release_round_trip [of 0 "\<lparr>server_type = CHR ''M'', current_cost = 9\<rparr>"
      "PyStr ''V''" "\<lambda>_. Reply ''done''" 2 "''done''" 4 3 11
      "\<lparr>queued_jobs = 1, t_avail = 8, server_kind = CHR ''M''\<rparr>"
      "\<lambda>_. Reply ''done''" "''V2''" "''done''"]
  by simp

text \<open>
  C6. Along every run of reserve and release steps on one server: in
  \<^verbatim>\<open>load_balancer_bar.py\<close>, with sizes that are not negative, \<open>current_cost\<close>
  stays the sum of the costs reserved and not yet released and is never negative; in
  \<^verbatim>\<open>load_balancer.py\<close>, \<open>queued_jobs\<close> stays the number of jobs reserved and not
  yet released and is never negative. No other method of either file returns a changed
  server.
\<close>

theorem outstanding_cost_invariant:
  "(bar_run evs (s, held) = Some (s', held') \<and> list_all size_ok evs
      \<and> current_cost s = sum_list held \<and> list_all (\<lambda>c. 0 \<le> c) held
     \<longrightarrow> current_cost s' = sum_list held' \<and> 0 \<le> current_cost s'
         \<and> list_all (\<lambda>c. 0 \<le> c) held')
   \<and> (lb_run levs (sv, n) = Some (sv', n') \<and> queued_jobs sv = int n
     \<longrightarrow> queued_jobs sv' = int n' \<and> 0 \<le> queued_jobs sv')"
proof (intro conjI impI)
  assume a: "bar_run evs (s, held) = Some (s', held') \<and> list_all size_ok evs
      \<and> current_cost s = sum_list held \<and> list_all (\<lambda>c. 0 \<le> c) held"
  then have "bar_inv (s, held)" by (simp add: bar_inv_def)
  with a bar_run_inv [of evs "(s, held)" "(s', held')"] have inv: "bar_inv (s', held')" by simp
  then show "current_cost s' = sum_list held'" "list_all (\<lambda>c. 0 \<le> c) held'"
    by (simp_all add: bar_inv_def)
  with sum_list_nonneg_all [of held'] show "0 \<le> current_cost s'" by simp
next
  assume a: "lb_run levs (sv, n) = Some (sv', n') \<and> queued_jobs sv = int n"
  with lb_run_count [of levs sv n sv' n'] show "queued_jobs sv' = int n'" by simp
  then show "0 \<le> queued_jobs sv'" by simp
qed

text \<open>
  Two requests enter a video server, the first leaves, a request of unknown kind is
  turned away: the cost 6 of the second is what is outstanding. Two reservations and one
  release: one job queued.
\<close>

theorem outstanding_cost_invariant_witness:
  "bar_run [Enter (PyStr ''V'') 5, Enter (PyStr ''M'') 3, Leave 5, Enter (PyStr ''X'') 9]
      (\<lparr>server_type = CHR ''V'', current_cost = 0\<rparr>, [])
     = Some (\<lparr>server_type = CHR ''V'', current_cost = 6\<rparr>, [6])
   \<and> current_cost \<lparr>server_type = CHR ''V'', current_cost = 6\<rparr> = sum_list [6]
   \<and> lb_run [Reserve 10 5, Reserve 11 9, Release 12]
      (\<lparr>queued_jobs = 0, t_avail = 0, server_kind = CHR ''V''\<rparr>, 0)
     = Some (\<lparr>queued_jobs = 1, t_avail = 24, server_kind = CHR ''V''\<rparr>, 1)
   \<and> queued_jobs \<lparr>queued_jobs = 1, t_avail = 24, server_kind = CHR ''V''\<rparr> = int 1"
  using outstanding_cost_invariant [of
      "[Enter (PyStr ''V'') 5, Enter (PyStr ''M'') 3, Leave 5, Enter (PyStr ''X'') 9]"
      "\<lparr>server_type = CHR ''V'', current_cost = 0\<rparr>" "[]"
      "\<lparr>server_type = CHR ''V'', current_cost = 6\<rparr>" "[6]"
      "[Reserve 10 5, Reserve 11 9, Release 12]"
      "\<lparr>queued_jobs = 0, t_avail = 0, server_kind = CHR ''V''\<rparr>" 0
      "\<lparr>queued_jobs = 1, t_avail = 24, server_kind = CHR ''V''\<rparr>" 1]
  by (simp add: server_cost_def type_cost_def bar_reserve_def bar_release_def
      reserve_def release_def Let_def)

section \<open>Sampled-pair selection\<close>

text \<open>
  C7. What \<^verbatim>\<open>load_balancer_bar.py\<close> does for the request \<open>V5\<close> and a video server
  with 4 outstanding beside an idle music server. The handler decodes the kind 86 and
  the size 53, the integer values of the two bytes. The sample draws the two servers, and
  the first cost query raises \<open>ValueError\<close>: no server is returned and the thread ends
  with the connection open. Called with the string \<open>V\<close> and the size 5 the method
  returns the video server, 9 against 15, and the music server once the video server has
  12 outstanding, 17 against 15.
\<close>

theorem get_server_on_received_bytes:
  "decode_request ''V5'' = Inr (PyInt 86, 53)
   \<and> sample2 2 0 0 = Inr (0, 1)
   \<and> get_server [\<lparr>server_type = CHR ''V'', current_cost = 4\<rparr>,
                 \<lparr>server_type = CHR ''M'', current_cost = 0\<rparr>] 0 0 (PyInt 86) 53
       = Inl ValueError
   \<and> handle_request [\<lparr>server_type = CHR ''V'', current_cost = 4\<rparr>,
                     \<lparr>server_type = CHR ''M'', current_cost = 0\<rparr>] 0 0
        (\<lambda>_ _. Reply ''ok'') (Some ''V5'')
       = \<lparr>raised = Some ValueError, sent_to_client = None,
          servers_after = [\<lparr>server_type = CHR ''V'', current_cost = 4\<rparr>,
                           \<lparr>server_type = CHR ''M'', current_cost = 0\<rparr>],
          conn_closed = False\<rparr>
   \<and> get_server [\<lparr>server_type = CHR ''V'', current_cost = 4\<rparr>,
                 \<lparr>server_type = CHR ''M'', current_cost = 0\<rparr>] 0 0 (PyStr ''V'') 5
       = Inr 0
   \<and> get_server [\<lparr>server_type = CHR ''V'', current_cost = 12\<rparr>,
                 \<lparr>server_type = CHR ''M'', current_cost = 0\<rparr>] 0 0 (PyStr ''V'') 5
       = Inr 1"
  by (simp add: decode_request_def sample2_eq get_server_def server_cost_def type_cost_def
      handle_request_def)

section \<open>Requests that do not decode\<close>

text \<open>
  C8. What the handlers do with requests that do not decode. In
  \<^verbatim>\<open>load_balancer_bar.py\<close> a request that is \<open>None\<close> takes the failure branch, which
  closes the connection. The empty request, which is what \<open>recv\<close> returns for a client
  that sent nothing, is not \<open>None\<close>: it raises \<open>IndexError\<close> and the connection is
  left open; the request \<open>X5\<close> raises \<open>ValueError\<close> and the connection is left open.
  In \<^verbatim>\<open>load_balancer.py\<close> the empty message fails the assertion and \<open>Vx\<close> raises
  \<open>ValueError\<close>, the connection left open. No server is changed in any of these.
\<close>

theorem undecodable_request_left_open:
  "handle_request [\<lparr>server_type = CHR ''V'', current_cost = 0\<rparr>,
                   \<lparr>server_type = CHR ''M'', current_cost = 0\<rparr>] 0 0
      (\<lambda>_ _. Reply ''ok'') None
     = \<lparr>raised = None, sent_to_client = None,
        servers_after = [\<lparr>server_type = CHR ''V'', current_cost = 0\<rparr>,
                         \<lparr>server_type = CHR ''M'', current_cost = 0\<rparr>],
        conn_closed = True\<rparr>
   \<and> handle_request [\<lparr>server_type = CHR ''V'', current_cost = 0\<rparr>,
                     \<lparr>server_type = CHR ''M'', current_cost = 0\<rparr>] 0 0
      (\<lambda>_ _. Reply ''ok'') (Some [])
     = \<lparr>raised = Some IndexError, sent_to_client = None,
        servers_after = [\<lparr>server_type = CHR ''V'', current_cost = 0\<rparr>,
                         \<lparr>server_type = CHR ''M'', current_cost = 0\<rparr>],
        conn_closed = False\<rparr>
   \<and> handle_request [\<lparr>server_type = CHR ''V'', current_cost = 0\<rparr>,
                     \<lparr>server_type = CHR ''M'', current_cost = 0\<rparr>] 0 0
      (\<lambda>_ _. Reply ''ok'') (Some ''X5'')
     = \<lparr>raised = Some ValueError, sent_to_client = None,
        servers_after = [\<lparr>server_type = CHR ''V'', current_cost = 0\<rparr>,
                         \<lparr>server_type = CHR ''M'', current_cost = 0\<rparr>],
        conn_closed = False\<rparr>
   \<and> run_client (\<lambda>_. 0) 0 0 (\<lambda>_ _. Reply ''ok'')
        [\<lparr>queued_jobs = 0, t_avail = 0, server_kind = CHR ''V''\<rparr>] []
     = \<lparr>raised = Some AssertionError, sent_to_client = None,
        servers_after = [\<lparr>queued_jobs = 0, t_avail = 0, server_kind = CHR ''V''\<rparr>],
        conn_closed = False\<rparr>
   \<and> run_client (\<lambda>_. 0) 0 0 (\<lambda>_ _. Reply ''ok'')
        [\<lparr>queued_jobs = 0, t_avail = 0, server_kind = CHR ''V''\<rparr>] ''Vx''
     = \<lparr>raised = Some ValueError, sent_to_client = None,
        servers_after = [\<lparr>queued_jobs = 0, t_avail = 0, server_kind = CHR ''V''\<rparr>],
        conn_closed = False\<rparr>"
  by (simp add: handle_request_def decode_request_def get_server_of_int run_client_def
      send_to_servers_def make_job_def py_int_def is_digit_def)

section \<open>The wire format\<close>




end
